theory Spec2Isabelle
  imports Complex_Main
begin

section \<open>Exceptions\<close>

text \<open>
  Every exception the modelled code can meet is a value. \<open>Raised\<close> stands for an
  exception thrown by a collaborator whose code is outside the modelled files (a parser,
  the POT manager), named by its message.
\<close>

datatype error =
    DoesNotExist
  | MultipleObjectsReturned
  | NameError
  | AttributeError
  | KeyError
  | ZeroDivisionError
  | DatabaseError
  | Raised string

section \<open>Data model (transifex/happix/models.py)\<close>

text \<open>
  Foreign keys are the primary keys of the rows they point to. A \<open>Language\<close> row is
  identified by its code. The two timestamp columns of each table are wall-clock values
  and are left out; no function modelled here reads them.
\<close>

type_synonym resource = nat
type_synonym language = string
type_synonym user = nat

record SourceEntity =
  se_id :: nat
  se_string :: string
  se_context :: string
  se_position :: "int option"
  se_occurrences :: "string option"
  se_flags :: string
  se_developer_comment :: string
  se_number :: int
  se_resource :: resource
  se_singular :: "nat option"

record Translation =
  tr_id :: nat
  tr_string :: string
  tr_number :: int
  tr_source_entity :: nat
  tr_language :: "language option"
  tr_resource :: resource
  tr_user :: "user option"

text \<open>The database state the functions below read and write: the two tables.\<close>

record catalog =
  SourceEntity_objects :: "SourceEntity list"
  Translation_objects :: "Translation list"

text \<open>
  What \<open>merge_stringset\<close> reads of its \<open>stringset\<close> argument: the attribute
  \<open>strings\<close>, and of each element \<open>j\<close> the attributes \<open>j.source_entity\<close>,
  \<open>j.context\<close> (which may be \<open>None\<close>), \<open>j.number\<close> and \<open>j.translation\<close>.
\<close>

record entry =
  source_entity :: string
  entry_context :: "string option"
  number :: int
  translation :: string

record stringset =
  strings :: "entry list"
  target_language :: "string option"

section \<open>The object manager\<close>

text \<open>
  \<open>QuerySet.get\<close>: the single matching row, \<open>DoesNotExist\<close> when there is none,
  \<open>MultipleObjectsReturned\<close> when there are several.
\<close>

fun qs_get :: "'a list \<Rightarrow> error + 'a" where
  "qs_get [] = Inl DoesNotExist"
| "qs_get [x] = Inr x"
| "qs_get (x # y # zs) = Inl MultipleObjectsReturned"

text \<open>
  What the columns hold. The limits are the ones Django documents for every database it
  supports: an \<open>IntegerField\<close> holds the values from -2147483648 to 2147483647, a
  \<open>CharField\<close> at most \<open>max_length\<close> characters. An insert of a value outside them
  is refused by the database, and the exception leaves \<open>get_or_create\<close>.
\<close>

definition IntegerField_ok :: "int \<Rightarrow> bool" where
  "IntegerField_ok n = (- 2147483648 \<le> n \<and> n \<le> 2147483647)"

definition CharField_ok :: "nat \<Rightarrow> string \<Rightarrow> bool" where
  "CharField_ok max_length s = (length s \<le> max_length)"

text \<open>The primary key of an inserted row: one more than the largest key of the table.\<close>

definition next_id :: "nat list \<Rightarrow> nat" where
  "next_id ids = Suc (fold max ids 0)"

text \<open>
  \<open>SourceEntity.objects.get_or_create(string=s, context=cx, resource=r, number=n,
  defaults={'position': 1})\<close>: the lookup is by the four keyword arguments; only when no
  row matches is a row built from them and the defaults, and inserted. The result is the
  row, the \<open>created\<close> flag and the table after the call. The insert cannot violate
  the table's \<open>unique_together\<close> constraint, whose columns are the lookup fields, so
  the \<open>IntegrityError\<close> branch of \<open>get_or_create\<close> is not reached by a single
  caller. The insert is refused when \<open>string\<close> or \<open>context\<close> is longer than the
  \<open>max_length=255\<close> of its column or \<open>number\<close> is outside the integer column.
\<close>

definition SourceEntity_lookup ::
  "catalog \<Rightarrow> string \<Rightarrow> string \<Rightarrow> resource \<Rightarrow> int \<Rightarrow> SourceEntity list" where
  "SourceEntity_lookup c s cx r n =
     filter (\<lambda>e. se_string e = s \<and> se_context e = cx \<and> se_resource e = r \<and> se_number e = n)
       (SourceEntity_objects c)"

definition SourceEntity_get_or_create ::
  "catalog \<Rightarrow> string \<Rightarrow> string \<Rightarrow> resource \<Rightarrow> int
     \<Rightarrow> error + (SourceEntity \<times> bool \<times> catalog)" where
  "SourceEntity_get_or_create c s cx r n =
     (case qs_get (SourceEntity_lookup c s cx r n) of
        Inr e \<Rightarrow> Inr (e, False, c)
      | Inl err \<Rightarrow>
          if err = DoesNotExist then
            (if CharField_ok 255 s \<and> CharField_ok 255 cx \<and> IntegerField_ok n then
               (let obj = \<lparr> se_id = next_id (map se_id (SourceEntity_objects c)),
                            se_string = s, se_context = cx, se_position = Some 1,
                            se_occurrences = None, se_flags = [], se_developer_comment = [],
                            se_number = n, se_resource = r, se_singular = None \<rparr>
                in Inr (obj, True, c\<lparr>SourceEntity_objects := SourceEntity_objects c @ [obj]\<rparr>))
             else Inl DatabaseError)
          else Inl err)"

text \<open>
  \<open>Translation.objects.get_or_create(source_entity=se, language=l, resource=r,
  number=n, defaults={'string': s, 'user': u})\<close>: the text and the user are defaults, so
  they are not part of the lookup. \<open>Translation.Meta.unique_together\<close> names the four
  lookup fields and \<open>string\<close>; a row inserted when no row matches the four fields
  cannot violate it. The insert is refused when the text is longer than the
  \<open>max_length=255\<close> of \<open>string\<close> or \<open>number\<close> is outside the integer column.
\<close>

definition Translation_lookup ::
  "catalog \<Rightarrow> nat \<Rightarrow> language option \<Rightarrow> resource \<Rightarrow> int \<Rightarrow> Translation list" where
  "Translation_lookup c se l r n =
     filter (\<lambda>t. tr_source_entity t = se \<and> tr_language t = l \<and> tr_resource t = r
                 \<and> tr_number t = n)
       (Translation_objects c)"

definition Translation_get_or_create ::
  "catalog \<Rightarrow> nat \<Rightarrow> language option \<Rightarrow> resource \<Rightarrow> int \<Rightarrow> string \<Rightarrow> user option
     \<Rightarrow> error + (Translation \<times> bool \<times> catalog)" where
  "Translation_get_or_create c se l r n s u =
     (case qs_get (Translation_lookup c se l r n) of
        Inr t \<Rightarrow> Inr (t, False, c)
      | Inl err \<Rightarrow>
          if err = DoesNotExist then
            (if CharField_ok 255 s \<and> IntegerField_ok n then
               (let obj = \<lparr> tr_id = next_id (map tr_id (Translation_objects c)),
                            tr_string = s, tr_number = n, tr_source_entity = se,
                            tr_language = l, tr_resource = r, tr_user = u \<rparr>
                in Inr (obj, True, c\<lparr>Translation_objects := Translation_objects c @ [obj]\<rparr>))
             else Inl DatabaseError)
          else Inl err)"

section \<open>Resource.merge_stringset\<close>

text \<open>\<open>j.context or "None"\<close>: \<open>None\<close> and the empty string are both falsy.\<close>

definition context_or_None :: "entry \<Rightarrow> string" where
  "context_or_None j =
     (case entry_context j of None \<Rightarrow> ''None''
      | Some cx \<Rightarrow> if cx = [] then ''None'' else cx)"

text \<open>
  One pass of the loop body over the entry \<open>j\<close>, from the state (catalog,
  \<open>strings_added\<close>, \<open>strings_updated\<close>). In the branch \<open>not created and
  overwrite_translations\<close> the body evaluates \<open>ts.string\<close>; no name \<open>ts\<close> is bound in
  the function or the module (the row is bound to \<open>tr\<close>), so that evaluation raises
  \<open>NameError\<close> before the comparison, the assignment or the increment is reached.
\<close>

definition merge_step ::
  "resource \<Rightarrow> language option \<Rightarrow> user option \<Rightarrow> bool \<Rightarrow> entry
     \<Rightarrow> catalog \<times> nat \<times> nat \<Rightarrow> error + (catalog \<times> nat \<times> nat)" where
  "merge_step self tlang usr overwrite_translations j st =
     (case st of (c, strings_added, strings_updated) \<Rightarrow>
        (case SourceEntity_get_or_create c (source_entity j) (context_or_None j) self (number j) of
           Inl err \<Rightarrow> Inl err
         | Inr (se, created_se, c1) \<Rightarrow>
             (case Translation_get_or_create c1 (se_id se) tlang self (number j) (translation j) usr of
                Inl err \<Rightarrow> Inl err
              | Inr (tr, created, c2) \<Rightarrow>
                  (let strings_added' = (if created then strings_added + 1 else strings_added)
                   in if \<not> created \<and> overwrite_translations
                      then Inl NameError
                      else Inr (c2, strings_added', strings_updated)))))"

fun merge_loop ::
  "resource \<Rightarrow> language option \<Rightarrow> user option \<Rightarrow> bool \<Rightarrow> entry list
     \<Rightarrow> catalog \<times> nat \<times> nat \<Rightarrow> error + (catalog \<times> nat \<times> nat)" where
  "merge_loop self tlang usr ow [] st = Inr st"
| "merge_loop self tlang usr ow (j # js) st =
     (case merge_step self tlang usr ow j st of
        Inl err \<Rightarrow> Inl err
      | Inr st' \<Rightarrow> merge_loop self tlang usr ow js st')"

text \<open>
  The \<open>try\<close> block. The argument is whatever object the caller passes; \<open>None\<close> has no
  attribute \<open>strings\<close>, and the attribute is read inside the \<open>try\<close>.
\<close>

definition merge_body ::
  "catalog \<Rightarrow> resource \<Rightarrow> stringset option \<Rightarrow> language option \<Rightarrow> user option \<Rightarrow> bool
     \<Rightarrow> error + (catalog \<times> nat \<times> nat)" where
  "merge_body c self ss tlang usr ow =
     (case ss of
        None \<Rightarrow> Inl AttributeError
      | Some s \<Rightarrow> merge_loop self tlang usr ow (strings s) (c, 0, 0))"

text \<open>
  The whole function under \<open>transaction.commit_manually\<close>: the bare \<open>except\<close> rolls the
  transaction back (the catalog is the one before the call) and returns \<open>(0, 0)\<close>; the
  \<open>else\<close> branch commits and returns the two counters.
\<close>

definition merge_stringset ::
  "catalog \<Rightarrow> resource \<Rightarrow> stringset option \<Rightarrow> language option \<Rightarrow> user option \<Rightarrow> bool
     \<Rightarrow> catalog \<times> (nat \<times> nat)" where
  "merge_stringset c self ss tlang usr ow =
     (case merge_body c self ss tlang usr ow of
        Inl err \<Rightarrow> (c, (0, 0))
      | Inr (c', strings_added, strings_updated) \<Rightarrow> (c', (strings_added, strings_updated)))"

section \<open>Resource.merge_translation_file\<close>

record StorageFile =
  sf_name :: string
  sf_size :: "int option"
  sf_mime_type :: string
  sf_uuid :: string
  sf_language :: "language option"
  sf_bound :: bool
  sf_user :: "user option"
  sf_total_strings :: "int option"

definition get_storage_path :: "StorageFile \<Rightarrow> string" where
  "get_storage_path f = ''/tmp/'' @ sf_uuid f @ ''-'' @ sf_name f"

text \<open>
  The parser classes live in \<open>libtransifex\<close>, outside the modelled files, so a parser
  is a parameter: what its \<open>parse_file\<close> does with a path. As the module's comment on
  the parsers says, it returns a \<open>StringSet\<close>; on a file it cannot parse it raises.
  \<open>PARSER_MAPPING\<close> is the dictionary from MIME type to parser.
\<close>

type_synonym parser = "string \<Rightarrow> error + stringset"

text \<open>
  The dictionary subscript raises \<open>KeyError\<close> for a MIME type with no parser; an
  exception of \<open>parse_file\<close> propagates; otherwise \<open>merge_stringset\<close> is called with
  its defaults \<open>user=None\<close> and \<open>overwrite_translations=True\<close>.
\<close>

definition merge_translation_file ::
  "(string \<rightharpoonup> parser) \<Rightarrow> catalog \<Rightarrow> resource \<Rightarrow> StorageFile
     \<Rightarrow> catalog \<times> (error + nat \<times> nat)" where
  "merge_translation_file PARSER_MAPPING c self translation_file =
     (case PARSER_MAPPING (sf_mime_type translation_file) of
        None \<Rightarrow> (c, Inl KeyError)
      | Some p \<Rightarrow>
          (case p (get_storage_path translation_file) of
             Inl err \<Rightarrow> (c, Inl err)
           | Inr ss \<Rightarrow>
               (case merge_stringset c self (Some ss) (sf_language translation_file) None True of
                  (c', counts) \<Rightarrow> (c', Inr counts))))"

section \<open>Resource statistics\<close>

text \<open>
  \<open>Language.objects.by_code_or_alias\<close> belongs to the \<open>languages\<close> application; the
  table it searches is a parameter, and a code that names no language raises
  \<open>Language.DoesNotExist\<close>.
\<close>

definition by_code_or_alias :: "(string \<rightharpoonup> language) \<Rightarrow> string \<Rightarrow> error + language" where
  "by_code_or_alias Language_objects code =
     (case Language_objects code of None \<Rightarrow> Inl DoesNotExist | Some l \<Rightarrow> Inr l)"

definition translated_strings ::
  "(string \<rightharpoonup> language) \<Rightarrow> catalog \<Rightarrow> resource \<Rightarrow> string \<Rightarrow> error + SourceEntity list" where
  "translated_strings Language_objects c self code =
     (case by_code_or_alias Language_objects code of
        Inl err \<Rightarrow> Inl err
      | Inr target \<Rightarrow>
          Inr (filter
                 (\<lambda>e. se_resource e = self \<and>
                      se_id e \<in> set (map tr_source_entity
                                      (filter (\<lambda>t. tr_language t = Some target \<and> tr_resource t = self)
                                         (Translation_objects c))))
                 (SourceEntity_objects c)))"

definition num_translated ::
  "(string \<rightharpoonup> language) \<Rightarrow> catalog \<Rightarrow> resource \<Rightarrow> string \<Rightarrow> error + nat" where
  "num_translated Language_objects c self code =
     (case translated_strings Language_objects c self code of
        Inl err \<Rightarrow> Inl err
      | Inr q \<Rightarrow> Inr (length q))"

definition total_entities :: "catalog \<Rightarrow> resource \<Rightarrow> nat" where
  "total_entities c self = length (filter (\<lambda>e. se_resource e = self) (SourceEntity_objects c))"

text \<open>
  \<open>/\<close> on two Python 2 integers: floor division, \<open>ZeroDivisionError\<close> for a zero
  divisor.
\<close>

definition py_div :: "int \<Rightarrow> int \<Rightarrow> error + int" where
  "py_div n d = (if d = 0 then Inl ZeroDivisionError else Inr (n div d))"

text \<open>
  \<open>num_translated\<close> is called before the \<open>try\<close>, so its exception propagates; the
  handler catches \<open>ZeroDivisionError\<close> only.
\<close>

definition trans_percent ::
  "(string \<rightharpoonup> language) \<Rightarrow> catalog \<Rightarrow> resource \<Rightarrow> string \<Rightarrow> error + int" where
  "trans_percent Language_objects c self code =
     (case num_translated Language_objects c self code of
        Inl err \<Rightarrow> Inl err
      | Inr t \<Rightarrow>
          (case py_div (int t * 100) (int (total_entities c self)) of
             Inl err \<Rightarrow> if err = ZeroDivisionError then Inr 100 else Inl err
           | Inr q \<Rightarrow> Inr q))"

definition untrans_percent ::
  "(string \<rightharpoonup> language) \<Rightarrow> catalog \<Rightarrow> resource \<Rightarrow> string \<Rightarrow> error + int" where
  "untrans_percent Language_objects c self code =
     (case trans_percent Language_objects c self code of
        Inl err \<Rightarrow> Inl err
      | Inr translated_percent \<Rightarrow> Inr (100 - translated_percent))"

section \<open>IntltoolHandler.set_stats (projects/handlers/types/intltool.py)\<close>

text \<open>
  The POT manager \<open>self.tm\<close>, the inherited \<open>set_stats_for_lang\<close> and the repository
  browser are outside the modelled files. Each of their calls is a parameter saying
  whether the call raises and, where the handler uses it, what it returns. What the
  handler itself decides is which calls it makes and in which order: the model returns
  the calls made, in order, and the exception that left the handler, if any.
\<close>

datatype call =
    DeleteStatsForObject
  | IntltoolUpdate
  | SetSourceStats bool
  | GetLangs
  | SetStatsForLang string
  | CleanDir

record collaborators =
  delete_stats_for_object :: "error option"
  intltool_update :: "error + bool"
  set_source_stats :: "bool \<Rightarrow> error option"
  get_langs :: "error + string list"
  set_stats_for_lang :: "string \<Rightarrow> error option"
  clean_dir :: "error option"

text \<open>The \<open>for lang in self.tm.get_langs()\<close> loop: it stops at the first exception.\<close>

fun stats_loop :: "collaborators \<Rightarrow> string list \<Rightarrow> call list \<times> error option" where
  "stats_loop env [] = ([], None)"
| "stats_loop env (lang # langs) =
     (case set_stats_for_lang env lang of
        Some err \<Rightarrow> ([SetStatsForLang lang], Some err)
      | None \<Rightarrow>
          (case stats_loop env langs of
             (calls, r) \<Rightarrow> (SetStatsForLang lang # calls, r)))"

definition set_stats :: "collaborators \<Rightarrow> call list \<times> error option" where
  "set_stats env =
     (case delete_stats_for_object env of
        Some err \<Rightarrow> ([DeleteStatsForObject], Some err)
      | None \<Rightarrow>
     (case intltool_update env of
        Inl err \<Rightarrow> ([DeleteStatsForObject, IntltoolUpdate], Some err)
      | Inr isIntltooled \<Rightarrow>
     (let isMsgmerged = (if \<not> isIntltooled then False else True) in
     (case set_source_stats env isMsgmerged of
        Some err \<Rightarrow> ([DeleteStatsForObject, IntltoolUpdate, SetSourceStats isMsgmerged], Some err)
      | None \<Rightarrow>
     (case get_langs env of
        Inl err \<Rightarrow>
          ([DeleteStatsForObject, IntltoolUpdate, SetSourceStats isMsgmerged, GetLangs], Some err)
      | Inr langs \<Rightarrow>
     (case stats_loop env langs of
        (calls, Some err) \<Rightarrow>
          ([DeleteStatsForObject, IntltoolUpdate, SetSourceStats isMsgmerged, GetLangs] @ calls,
           Some err)
      | (calls, None) \<Rightarrow>
          ([DeleteStatsForObject, IntltoolUpdate, SetSourceStats isMsgmerged, GetLangs] @ calls
             @ [CleanDir],
           clean_dir env)))))))"

section \<open>Auxiliary definitions\<close>

text \<open>
  An entry is resolved in a catalog when both lookups of the loop body find exactly one
  row for it.
\<close>

definition resolved :: "catalog \<Rightarrow> resource \<Rightarrow> language option \<Rightarrow> entry \<Rightarrow> bool" where
  "resolved c self tlang j =
     (case SourceEntity_lookup c (source_entity j) (context_or_None j) self (number j) of
        [e] \<Rightarrow> (case Translation_lookup c (se_id e) tlang self (number j) of
                  [t] \<Rightarrow> True | _ \<Rightarrow> False)
      | _ \<Rightarrow> False)"

subsection \<open>Concrete inputs\<close>

definition hello_bonjour :: entry where
  "hello_bonjour = \<lparr> source_entity = ''Hello'', entry_context = Some [], number = 0,
                      translation = ''Bonjour'' \<rparr>"

definition hello_salut :: entry where
  "hello_salut = \<lparr> source_entity = ''Hello'', entry_context = Some [], number = 0,
                    translation = ''Salut'' \<rparr>"

definition bye_adieu :: entry where
  "bye_adieu = \<lparr> source_entity = ''Bye'', entry_context = None, number = 0,
                  translation = ''Adieu'' \<rparr>"

definition empty_catalog :: catalog where
  "empty_catalog = \<lparr> SourceEntity_objects = [], Translation_objects = [] \<rparr>"

text \<open>A source entity of resource 1 as the merge creates it, and a French translation.\<close>

definition new_SourceEntity :: "nat \<Rightarrow> string \<Rightarrow> SourceEntity" where
  "new_SourceEntity i s =
     \<lparr> se_id = i, se_string = s, se_context = ''None'', se_position = Some 1,
       se_occurrences = None, se_flags = [], se_developer_comment = [],
       se_number = 0, se_resource = 1, se_singular = None \<rparr>"

definition fr_Translation :: "nat \<Rightarrow> nat \<Rightarrow> string \<Rightarrow> Translation" where
  "fr_Translation i se s =
     \<lparr> tr_id = i, tr_string = s, tr_number = 0, tr_source_entity = se,
       tr_language = Some ''fr'', tr_resource = 1, tr_user = None \<rparr>"

definition hello_catalog :: catalog where
  "hello_catalog =
     \<lparr> SourceEntity_objects = [new_SourceEntity 1 ''Hello''],
       Translation_objects = [fr_Translation 1 1 ''Bonjour''] \<rparr>"

text \<open>
  Two French translations of one entity with different texts: the unique constraint of
  \<open>Translation\<close> includes the text, so the table admits both.
\<close>

definition bye_twice_catalog :: catalog where
  "bye_twice_catalog =
     \<lparr> SourceEntity_objects = [new_SourceEntity 1 ''Bye''],
       Translation_objects = [fr_Translation 1 1 ''Au revoir'', fr_Translation 2 1 ''Salut''] \<rparr>"

definition three_catalog :: catalog where
  "three_catalog =
     \<lparr> SourceEntity_objects =
         [new_SourceEntity 1 ''Hello'', new_SourceEntity 2 ''Bye'', new_SourceEntity 3 ''Thanks''],
       Translation_objects = [fr_Translation 1 1 ''Bonjour''] \<rparr>"

definition languages_fr :: "string \<rightharpoonup> language" where
  "languages_fr = [''fr'' \<mapsto> ''fr'']"

definition quiet_collaborators :: "error + bool \<Rightarrow> collaborators" where
  "quiet_collaborators r =
     \<lparr> delete_stats_for_object = None, intltool_update = r,
       set_source_stats = (\<lambda>b. None), get_langs = Inr [''fr'', ''de''],
       set_stats_for_lang = (\<lambda>lang. None), clean_dir = None \<rparr>"

definition po_file :: StorageFile where
  "po_file = \<lparr> sf_name = ''fr.po'', sf_size = Some 10, sf_mime_type = ''text/x-po'',
                sf_uuid = ''abc'', sf_language = Some ''fr'', sf_bound = False,
                sf_user = None, sf_total_strings = None \<rparr>"

text \<open>A parser that reads the one entry "Hello"/"Bonjour" from every file.\<close>

definition hello_parser :: parser where
  "hello_parser path = Inr \<lparr>strings = [hello_bonjour], target_language = Some ''fr''\<rparr>"

lemmas merge_defs =
  merge_stringset_def merge_body_def merge_step_def SourceEntity_get_or_create_def
  Translation_get_or_create_def SourceEntity_lookup_def Translation_lookup_def
  context_or_None_def next_id_def IntegerField_ok_def CharField_ok_def Let_def

lemmas example_defs =
  hello_bonjour_def hello_salut_def bye_adieu_def empty_catalog_def new_SourceEntity_def
  fr_Translation_def hello_catalog_def bye_twice_catalog_def

lemmas stats_defs =
  num_translated_def translated_strings_def by_code_or_alias_def total_entities_def
  trans_percent_def untrans_percent_def py_div_def

section \<open>The object manager and the loop body\<close>

lemma qs_get_Inr: "qs_get xs = Inr x \<longleftrightarrow> xs = [x]"
  by (cases xs rule: qs_get.cases) auto

lemma qs_get_DoesNotExist: "qs_get xs = Inl DoesNotExist \<longleftrightarrow> xs = []"
  by (cases xs rule: qs_get.cases) auto

lemma resolved_iff:
  "resolved c self tlang j \<longleftrightarrow>
     (\<exists>e t. SourceEntity_lookup c (source_entity j) (context_or_None j) self (number j) = [e]
          \<and> Translation_lookup c (se_id e) tlang self (number j) = [t])"
  by (auto simp: resolved_def split: list.splits)

lemma SourceEntity_get_or_create_cases:
  assumes "SourceEntity_get_or_create c s cx r n = Inr (e, created, c1)"
  shows "(\<not> created \<and> c1 = c \<and> SourceEntity_lookup c s cx r n = [e])
       \<or> (created \<and> SourceEntity_lookup c s cx r n = []
           \<and> c1 = c\<lparr>SourceEntity_objects := SourceEntity_objects c @ [e]\<rparr>
           \<and> se_string e = s \<and> se_context e = cx \<and> se_resource e = r \<and> se_number e = n)"
  using assms
  by (auto simp: SourceEntity_get_or_create_def Let_def qs_get_Inr qs_get_DoesNotExist
           split: sum.splits if_splits)

lemma Translation_get_or_create_cases:
  assumes "Translation_get_or_create c se l r n s u = Inr (t, created, c1)"
  shows "(\<not> created \<and> c1 = c \<and> Translation_lookup c se l r n = [t])
       \<or> (created \<and> Translation_lookup c se l r n = []
           \<and> c1 = c\<lparr>Translation_objects := Translation_objects c @ [t]\<rparr>
           \<and> tr_source_entity t = se \<and> tr_language t = l \<and> tr_resource t = r
           \<and> tr_number t = n \<and> tr_string t = s \<and> tr_user t = u)"
  using assms
  by (auto simp: Translation_get_or_create_def Let_def qs_get_Inr qs_get_DoesNotExist
           split: sum.splits if_splits)

lemma merge_step_resolved_unchanged:
  assumes "resolved c self tlang j"
  shows "merge_step self tlang usr False j (c, a, up) = Inr (c, a, up)"
proof -
  from assms obtain e t where
    e: "SourceEntity_lookup c (source_entity j) (context_or_None j) self (number j) = [e]"
    and t: "Translation_lookup c (se_id e) tlang self (number j) = [t]"
    by (auto simp: resolved_iff)
  show ?thesis
    by (simp add: merge_step_def SourceEntity_get_or_create_def Translation_get_or_create_def e t)
qed

lemma merge_step_cases:
  assumes "merge_step self tlang usr ow j (c, a, up) = Inr (c', a', up')"
  obtains e created_se c1 t created where
    "SourceEntity_get_or_create c (source_entity j) (context_or_None j) self (number j)
       = Inr (e, created_se, c1)"
    "Translation_get_or_create c1 (se_id e) tlang self (number j) (translation j) usr
       = Inr (t, created, c')"
    "a' = (if created then a + 1 else a)" "up' = up" "created \<or> \<not> ow"
  using assms
  by (auto simp: merge_step_def Let_def split: sum.splits prod.splits if_splits)

lemma SourceEntity_lookup_Translation_objects [simp]:
  "SourceEntity_lookup (c\<lparr>Translation_objects := ts\<rparr>) s cx r n = SourceEntity_lookup c s cx r n"
  by (simp add: SourceEntity_lookup_def)

lemma Translation_lookup_SourceEntity_objects [simp]:
  "Translation_lookup (c\<lparr>SourceEntity_objects := es\<rparr>) se l r n = Translation_lookup c se l r n"
  by (simp add: Translation_lookup_def)

lemma SourceEntity_lookup_append:
  "SourceEntity_lookup (c\<lparr>SourceEntity_objects := SourceEntity_objects c @ [e]\<rparr>) s cx r n
     = SourceEntity_lookup c s cx r n
       @ (if se_string e = s \<and> se_context e = cx \<and> se_resource e = r \<and> se_number e = n
          then [e] else [])"
  by (simp add: SourceEntity_lookup_def)

lemma Translation_lookup_append:
  "Translation_lookup (c\<lparr>Translation_objects := Translation_objects c @ [t]\<rparr>) se l r n
     = Translation_lookup c se l r n
       @ (if tr_source_entity t = se \<and> tr_language t = l \<and> tr_resource t = r \<and> tr_number t = n
          then [t] else [])"
  by (simp add: Translation_lookup_def)

lemma SourceEntity_get_or_create_keeps:
  assumes "SourceEntity_get_or_create c s cx r n = Inr (e, created, c1)"
    and "SourceEntity_lookup c s' cx' r' n' = [e']"
  shows "SourceEntity_lookup c1 s' cx' r' n' = [e']"
  using SourceEntity_get_or_create_cases[OF assms(1)] assms(2)
  by (auto simp: SourceEntity_lookup_append)

lemma SourceEntity_get_or_create_Translation_lookup:
  assumes "SourceEntity_get_or_create c s cx r n = Inr (e, created, c1)"
  shows "Translation_lookup c1 se l r' n' = Translation_lookup c se l r' n'"
  using SourceEntity_get_or_create_cases[OF assms] by auto

lemma Translation_get_or_create_keeps:
  assumes "Translation_get_or_create c se l r n s u = Inr (t, created, c1)"
    and "Translation_lookup c se' l' r' n' = [t']"
  shows "Translation_lookup c1 se' l' r' n' = [t']"
  using Translation_get_or_create_cases[OF assms(1)] assms(2)
  by (auto simp: Translation_lookup_append)

lemma Translation_get_or_create_SourceEntity_lookup:
  assumes "Translation_get_or_create c se l r n s u = Inr (t, created, c1)"
  shows "SourceEntity_lookup c1 s' cx' r' n' = SourceEntity_lookup c s' cx' r' n'"
  using Translation_get_or_create_cases[OF assms] by auto

lemma merge_step_keeps_resolved:
  assumes "merge_step self tlang usr ow j (c, a, up) = Inr (c', a', up')"
    and "resolved c self tlang k"
  shows "resolved c' self tlang k"
proof -
  from assms(1) obtain e created_se c1 t created where
    se: "SourceEntity_get_or_create c (source_entity j) (context_or_None j) self (number j)
       = Inr (e, created_se, c1)"
    and tr: "Translation_get_or_create c1 (se_id e) tlang self (number j) (translation j) usr
       = Inr (t, created, c')"
    by (rule merge_step_cases)
  from assms(2) obtain ke kt where
    ke: "SourceEntity_lookup c (source_entity k) (context_or_None k) self (number k) = [ke]"
    and kt: "Translation_lookup c (se_id ke) tlang self (number k) = [kt]"
    by (auto simp: resolved_iff)
  have "SourceEntity_lookup c' (source_entity k) (context_or_None k) self (number k) = [ke]"
    using SourceEntity_get_or_create_keeps[OF se ke]
    by (simp add: Translation_get_or_create_SourceEntity_lookup[OF tr])
  moreover have "Translation_lookup c' (se_id ke) tlang self (number k) = [kt]"
    using kt Translation_get_or_create_keeps[OF tr]
    by (simp add: SourceEntity_get_or_create_Translation_lookup[OF se])
  ultimately show ?thesis by (auto simp: resolved_iff)
qed

lemma merge_step_resolves:
  assumes "merge_step self tlang usr ow j (c, a, up) = Inr (c', a', up')"
  shows "resolved c' self tlang j"
proof -
  from assms obtain e created_se c1 t created where
    se: "SourceEntity_get_or_create c (source_entity j) (context_or_None j) self (number j)
       = Inr (e, created_se, c1)"
    and tr: "Translation_get_or_create c1 (se_id e) tlang self (number j) (translation j) usr
       = Inr (t, created, c')"
    by (rule merge_step_cases)
  have "SourceEntity_lookup c1 (source_entity j) (context_or_None j) self (number j) = [e]"
    using SourceEntity_get_or_create_cases[OF se] by (auto simp: SourceEntity_lookup_append)
  then have "SourceEntity_lookup c' (source_entity j) (context_or_None j) self (number j) = [e]"
    by (simp add: Translation_get_or_create_SourceEntity_lookup[OF tr])
  moreover have "Translation_lookup c' (se_id e) tlang self (number j) = [t]"
    using Translation_get_or_create_cases[OF tr] by (auto simp: Translation_lookup_append)
  ultimately show ?thesis by (auto simp: resolved_iff)
qed

lemma merge_loop_keeps_resolved:
  "merge_loop self tlang usr ow js (c, a, up) = Inr (c', a', up') \<Longrightarrow> resolved c self tlang k
   \<Longrightarrow> resolved c' self tlang k"
proof (induction js arbitrary: c a up)
  case Nil
  then show ?case by simp
next
  case (Cons j js)
  from Cons.prems(1) obtain c1 a1 up1 where
    s: "merge_step self tlang usr ow j (c, a, up) = Inr (c1, a1, up1)"
    and l: "merge_loop self tlang usr ow js (c1, a1, up1) = Inr (c', a', up')"
    by (auto split: sum.splits)
  from Cons.IH[OF l merge_step_keeps_resolved[OF s Cons.prems(2)]] show ?case .
qed

lemma merge_loop_resolves:
  "merge_loop self tlang usr ow js (c, a, up) = Inr (c', a', up')
   \<Longrightarrow> list_all (resolved c' self tlang) js"
proof (induction js arbitrary: c a up)
  case Nil
  then show ?case by simp
next
  case (Cons j js)
  from Cons.prems obtain c1 a1 up1 where
    s: "merge_step self tlang usr ow j (c, a, up) = Inr (c1, a1, up1)"
    and l: "merge_loop self tlang usr ow js (c1, a1, up1) = Inr (c', a', up')"
    by (auto split: sum.splits)
  from merge_loop_keeps_resolved[OF l merge_step_resolves[OF s]] Cons.IH[OF l]
  show ?case by simp
qed

lemma merge_loop_resolved_unchanged:
  "list_all (resolved c self tlang) js \<Longrightarrow> merge_loop self tlang usr False js (c, a, up) = Inr (c, a, up)"
  by (induction js) (simp_all add: merge_step_resolved_unchanged)

lemma merge_step_counts:
  "merge_step self tlang usr ow j (c, a, up) = Inr (c', a', up') \<Longrightarrow> a' + up' \<le> a + up + 1"
  by (auto simp: merge_step_def Let_def split: sum.splits prod.splits if_splits)

lemma merge_loop_counts:
  "merge_loop self tlang usr ow js (c, a, up) = Inr (c', a', up') \<Longrightarrow> a' + up' \<le> a + up + length js"
proof (induction js arbitrary: c a up)
  case Nil
  then show ?case by simp
next
  case (Cons j js)
  from Cons.prems obtain c1 a1 up1 where
    s: "merge_step self tlang usr ow j (c, a, up) = Inr (c1, a1, up1)"
    and l: "merge_loop self tlang usr ow js (c1, a1, up1) = Inr (c', a', up')"
    by (auto split: sum.splits)
  from merge_step_counts[OF s] Cons.IH[OF l] show ?case by simp
qed

lemma merge_loop_append:
  "merge_loop self tlang usr ow (xs @ ys) st =
     (case merge_loop self tlang usr ow xs st of
        Inl e \<Rightarrow> Inl e
      | Inr st' \<Rightarrow> merge_loop self tlang usr ow ys st')"
  by (induction xs arbitrary: st) (auto split: sum.splits)

lemma SourceEntity_lookup_empty_resource:
  "filter (\<lambda>e. se_resource e = self) (SourceEntity_objects c) = []
   \<Longrightarrow> SourceEntity_lookup c s cx self n = []"
  by (auto simp: SourceEntity_lookup_def filter_empty_conv)

lemma Translation_lookup_empty_resource:
  "filter (\<lambda>t. tr_resource t = self) (Translation_objects c) = []
   \<Longrightarrow> Translation_lookup c se l self n = []"
  by (auto simp: Translation_lookup_def filter_empty_conv)

lemma stats_loop_no_error:
  "list_all (\<lambda>lang. set_stats_for_lang env lang = None) langs
   \<Longrightarrow> stats_loop env langs = (map SetStatsForLang langs, None)"
  by (induction langs) auto

lemma stats_loop_error:
  "list_all (\<lambda>lang. set_stats_for_lang env lang = None) before
   \<Longrightarrow> set_stats_for_lang env lang = Some e
   \<Longrightarrow> stats_loop env (before @ lang # rest)
       = (map SetStatsForLang before @ [SetStatsForLang lang], Some e)"
  by (induction before) auto

lemma stats_loop_calls: "CleanDir \<notin> set (fst (stats_loop env langs))"
  by (induction langs) (auto split: option.splits prod.splits)

lemma stats_loop_returns:
  "(snd (stats_loop env langs) = None)
     = list_all (\<lambda>lang. set_stats_for_lang env lang = None) langs"
  by (induction langs) (auto split: option.splits prod.splits)

lemma set_stats_CleanDir_iff:
  "(CleanDir \<in> set (fst (set_stats env))) =
       (delete_stats_for_object env = None
        \<and> (\<exists>b ls. intltool_update env = Inr b \<and> set_source_stats env b = None
               \<and> get_langs env = Inr ls
               \<and> list_all (\<lambda>lang. set_stats_for_lang env lang = None) ls))"
proof (cases "delete_stats_for_object env")
  case (Some e)
  then show ?thesis by (simp add: set_stats_def)
next
  case None
  note d = this
  show ?thesis
  proof (cases "intltool_update env")
    case (Inl e)
    with d show ?thesis by (simp add: set_stats_def)
  next
    case (Inr b)
    note u = this
    show ?thesis
    proof (cases "set_source_stats env b")
      case (Some e)
      with d u show ?thesis by (cases b) (auto simp: set_stats_def)
    next
      case None
      note so = this
      show ?thesis
      proof (cases "get_langs env")
        case (Inl e)
        with d u so show ?thesis by (cases b) (auto simp: set_stats_def)
      next
        case (Inr ls)
        obtain calls r where sl: "stats_loop env ls = (calls, r)"
          by (cases "stats_loop env ls") auto
        from stats_loop_calls[of env ls] sl have nc: "CleanDir \<notin> set calls" by simp
        from stats_loop_returns[of env ls] sl
        have rr: "(r = None) = list_all (\<lambda>lang. set_stats_for_lang env lang = None) ls"
          by simp
        from d u so Inr sl nc rr show ?thesis
          by (cases b; cases r) (auto simp: set_stats_def)
      qed
    qed
  qed
qed


section \<open>Overwriting an existing translation\<close>

text \<open>
  Claim C1 says that with \<open>overwrite_translations=True\<close> an existing translation whose
  text differs from the entry's is rewritten and counted once in \<open>strings_updated\<close>,
  and that an identical text is a no-op. The code at the input of the claim: the catalog
  holds "Hello" with the French translation "Bonjour", and the stringset brings "Salut"
  for it. The loop body raises \<open>NameError\<close> at \<open>ts.string\<close>, the handler rolls back,
  and the call returns \<open>(0, 0)\<close> with the stored text still "Bonjour". With an identical
  text the same exception is raised: a new entry merged in the same batch is rolled back
  with it.
\<close>

theorem overwrite_existing_translation_raises:
  "merge_step 1 (Some ''fr'') None True hello_salut (hello_catalog, 0, 0) = Inl NameError
   \<and> merge_stringset hello_catalog 1
        (Some \<lparr>strings = [hello_salut], target_language = Some ''fr''\<rparr>)
        (Some ''fr'') None True = (hello_catalog, (0, 0))
   \<and> map tr_string (Translation_objects hello_catalog) = [''Bonjour'']
   \<and> merge_stringset hello_catalog 1
        (Some \<lparr>strings = [bye_adieu, hello_bonjour], target_language = Some ''fr''\<rparr>)
        (Some ''fr'') None True = (hello_catalog, (0, 0))"
  by (simp add: merge_defs example_defs)

section \<open>Faults inside the transaction\<close>

text \<open>
  Claim C2, as the code has it: when the loop has processed the entries \<open>js1\<close> and the
  body raises on the next entry, the catalog after the call is the catalog before it and
  the call returns \<open>(0, 0)\<close>. No error reaches the caller: the outcome is the one of
  merging the empty stringset.
\<close>

theorem fault_rolls_back_without_error:
  assumes "merge_loop self tlang usr ow js1 (c, 0, 0) = Inr st"
    and "merge_step self tlang usr ow j st = Inl e"
  shows "merge_stringset c self (Some \<lparr>strings = js1 @ j # js2, target_language = tg\<rparr>) tlang usr ow
           = (c, (0, 0))
       \<and> merge_stringset c self (Some \<lparr>strings = js1 @ j # js2, target_language = tg\<rparr>) tlang usr ow
           = merge_stringset c self (Some \<lparr>strings = [], target_language = tg\<rparr>) tlang usr ow"
  using assms by (simp add: merge_stringset_def merge_body_def merge_loop_append)

text \<open>
  A run of it: "Hello" is merged first and creates two rows, then "Bye" finds two
  translations and \<open>get\<close> raises; the two new rows are gone.
\<close>

theorem fault_rolls_back_without_error_witness:
  "merge_loop 1 (Some ''fr'') None False [hello_bonjour] (bye_twice_catalog, 0, 0)
     = Inr (bye_twice_catalog
              \<lparr> SourceEntity_objects := SourceEntity_objects bye_twice_catalog @ [new_SourceEntity 2 ''Hello''],
                Translation_objects := Translation_objects bye_twice_catalog @ [fr_Translation 3 2 ''Bonjour''] \<rparr>,
            1, 0)
   \<and> merge_step 1 (Some ''fr'') None False bye_adieu
       (bye_twice_catalog
              \<lparr> SourceEntity_objects := SourceEntity_objects bye_twice_catalog @ [new_SourceEntity 2 ''Hello''],
                Translation_objects := Translation_objects bye_twice_catalog @ [fr_Translation 3 2 ''Bonjour''] \<rparr>,
            1, 0) = Inl MultipleObjectsReturned
   \<and> merge_stringset bye_twice_catalog 1
        (Some \<lparr>strings = [hello_bonjour] @ bye_adieu # [hello_salut], target_language = None\<rparr>)
        (Some ''fr'') None False = (bye_twice_catalog, (0, 0))"
proof -
  let ?st = "(bye_twice_catalog
              \<lparr> SourceEntity_objects := SourceEntity_objects bye_twice_catalog @ [new_SourceEntity 2 ''Hello''],
                Translation_objects := Translation_objects bye_twice_catalog @ [fr_Translation 3 2 ''Bonjour''] \<rparr>,
            1::nat, 0::nat)"
  have a: "merge_loop 1 (Some ''fr'') None False [hello_bonjour] (bye_twice_catalog, 0, 0) = Inr ?st"
    by (simp add: merge_defs example_defs)
  have b: "merge_step 1 (Some ''fr'') None False bye_adieu ?st = Inl MultipleObjectsReturned"
    by (simp add: merge_defs example_defs)
  from fault_rolls_back_without_error[OF a b, of "[hello_salut]" None] a b show ?thesis
    by simp
qed

text \<open>
  The caller cannot tell the failed merge from a merge of nothing: both return the same
  pair and the same catalog.
\<close>

theorem failed_merge_looks_like_empty_merge:
  "merge_body bye_twice_catalog 1 (Some \<lparr>strings = [bye_adieu], target_language = None\<rparr>)
      (Some ''fr'') None False = Inl MultipleObjectsReturned
   \<and> merge_stringset bye_twice_catalog 1 (Some \<lparr>strings = [bye_adieu], target_language = None\<rparr>)
        (Some ''fr'') None False
     = merge_stringset bye_twice_catalog 1 (Some \<lparr>strings = [], target_language = None\<rparr>)
        (Some ''fr'') None False"
  by (simp add: merge_defs example_defs)

section \<open>The lookup key of a translation\<close>

text \<open>
  Claim C3, as the code has it: the lookup of \<open>get_or_create\<close> is by (source entity,
  language, resource, number) and the incoming text is a default only. When exactly one
  row has these four fields it is returned, whatever its text and whatever the incoming
  text, and nothing is inserted. A row is created only when no row has the four fields;
  it is then the row with the incoming text, appended to the table, and it is created
  whenever the columns can hold the text and the number. When several rows have the four
  fields the lookup raises and nothing is inserted.
\<close>

theorem Translation_lookup_ignores_text:
  "(Translation_lookup c se l r n = [t]
      \<longrightarrow> Translation_get_or_create c se l r n s u = Inr (t, False, c))
   \<and> (Translation_get_or_create c se l r n s u = Inr (row, False, c')
      \<longrightarrow> Translation_lookup c se l r n = [row] \<and> c' = c)
   \<and> (Translation_get_or_create c se l r n s u = Inr (row, True, c')
      \<longrightarrow> Translation_lookup c se l r n = []
          \<and> row = \<lparr> tr_id = next_id (map tr_id (Translation_objects c)), tr_string = s,
                     tr_number = n, tr_source_entity = se, tr_language = l, tr_resource = r,
                     tr_user = u \<rparr>
          \<and> c' = c\<lparr>Translation_objects := Translation_objects c @ [row]\<rparr>)
   \<and> (Translation_lookup c se l r n = [] \<and> CharField_ok 255 s \<and> IntegerField_ok n
      \<longrightarrow> (\<exists>obj. Translation_get_or_create c se l r n s u
                    = Inr (obj, True, c\<lparr>Translation_objects := Translation_objects c @ [obj]\<rparr>)
                 \<and> tr_string obj = s))
   \<and> (2 \<le> length (Translation_lookup c se l r n)
      \<longrightarrow> Translation_get_or_create c se l r n s u = Inl MultipleObjectsReturned)"
proof (intro conjI impI)
  assume "Translation_lookup c se l r n = [t]"
  then show "Translation_get_or_create c se l r n s u = Inr (t, False, c)"
    by (simp add: Translation_get_or_create_def)
next
  assume a: "Translation_get_or_create c se l r n s u = Inr (row, False, c')"
  from Translation_get_or_create_cases[OF a]
  show "Translation_lookup c se l r n = [row]" by simp
  from Translation_get_or_create_cases[OF a]
  show "c' = c" by simp
next
  assume a: "Translation_get_or_create c se l r n s u = Inr (row, True, c')"
  from Translation_get_or_create_cases[OF a]
  show "Translation_lookup c se l r n = []" by simp
  from a show "row = \<lparr> tr_id = next_id (map tr_id (Translation_objects c)), tr_string = s,
                     tr_number = n, tr_source_entity = se, tr_language = l, tr_resource = r,
                     tr_user = u \<rparr>"
    by (auto simp: Translation_get_or_create_def Let_def split: sum.splits if_splits)
  from Translation_get_or_create_cases[OF a]
  show "c' = c\<lparr>Translation_objects := Translation_objects c @ [row]\<rparr>" by simp
next
  assume "Translation_lookup c se l r n = [] \<and> CharField_ok 255 s \<and> IntegerField_ok n"
  then show "\<exists>obj. Translation_get_or_create c se l r n s u
                    = Inr (obj, True, c\<lparr>Translation_objects := Translation_objects c @ [obj]\<rparr>)
                 \<and> tr_string obj = s"
    by (simp add: Translation_get_or_create_def Let_def)
next
  assume "2 \<le> length (Translation_lookup c se l r n)"
  then obtain x y zs where "Translation_lookup c se l r n = x # y # zs"
    by (cases "Translation_lookup c se l r n" rule: qs_get.cases) auto
  then show "Translation_get_or_create c se l r n s u = Inl MultipleObjectsReturned"
    by (simp add: Translation_get_or_create_def)
qed

text \<open>
  The cases on concrete catalogs: the French row "Bonjour" is found for the incoming text
  "Salut"; a German row is created, no German row being there; two French rows of one
  entity make the lookup raise.
\<close>

theorem Translation_lookup_ignores_text_witness:
  "Translation_lookup hello_catalog 1 (Some ''fr'') 1 0 = [fr_Translation 1 1 ''Bonjour'']
   \<and> Translation_get_or_create hello_catalog 1 (Some ''fr'') 1 0 ''Salut'' None
       = Inr (fr_Translation 1 1 ''Bonjour'', False, hello_catalog)
   \<and> Translation_lookup hello_catalog 1 (Some ''de'') 1 0 = []
   \<and> CharField_ok 255 ''Hallo'' \<and> IntegerField_ok 0
   \<and> Translation_get_or_create hello_catalog 1 (Some ''de'') 1 0 ''Hallo'' None
       = Inr (\<lparr> tr_id = 2, tr_string = ''Hallo'', tr_number = 0, tr_source_entity = 1,
                 tr_language = Some ''de'', tr_resource = 1, tr_user = None \<rparr>,
              True,
              hello_catalog\<lparr>Translation_objects := Translation_objects hello_catalog @
                [\<lparr> tr_id = 2, tr_string = ''Hallo'', tr_number = 0, tr_source_entity = 1,
                   tr_language = Some ''de'', tr_resource = 1, tr_user = None \<rparr>]\<rparr>)
   \<and> 2 \<le> length (Translation_lookup bye_twice_catalog 1 (Some ''fr'') 1 0)
   \<and> Translation_get_or_create bye_twice_catalog 1 (Some ''fr'') 1 0 ''Adieu'' None
       = Inl MultipleObjectsReturned"
proof -
  let ?de = "\<lparr> tr_id = 2, tr_string = ''Hallo'', tr_number = 0, tr_source_entity = 1,
                 tr_language = Some ''de'', tr_resource = 1, tr_user = None \<rparr>"
  let ?c' = "hello_catalog\<lparr>Translation_objects := Translation_objects hello_catalog @ [?de]\<rparr>"
  have a: "Translation_lookup hello_catalog 1 (Some ''fr'') 1 0 = [fr_Translation 1 1 ''Bonjour'']"
    by (simp add: Translation_lookup_def example_defs)
  have b: "Translation_lookup hello_catalog 1 (Some ''de'') 1 0 = []"
    by (simp add: Translation_lookup_def example_defs)
  have ok: "CharField_ok 255 ''Hallo''" "IntegerField_ok 0"
    by (simp_all add: CharField_ok_def IntegerField_ok_def)
  have m: "2 \<le> length (Translation_lookup bye_twice_catalog 1 (Some ''fr'') 1 0)"
    by (simp add: Translation_lookup_def example_defs)
  have found: "Translation_get_or_create hello_catalog 1 (Some ''fr'') 1 0 ''Salut'' None
       = Inr (fr_Translation 1 1 ''Bonjour'', False, hello_catalog)"
    using Translation_lookup_ignores_text
            [where c = hello_catalog and se = 1 and l = "Some ''fr''" and r = 1 and n = 0
               and t = "fr_Translation 1 1 ''Bonjour''" and s = "''Salut''" and u = None]
          a by blast
  have "\<exists>obj. Translation_get_or_create hello_catalog 1 (Some ''de'') 1 0 ''Hallo'' None
          = Inr (obj, True,
                 hello_catalog\<lparr>Translation_objects := Translation_objects hello_catalog @ [obj]\<rparr>)
        \<and> tr_string obj = ''Hallo''"
    using Translation_lookup_ignores_text
            [where c = hello_catalog and se = 1 and l = "Some ''de''" and r = 1 and n = 0
               and s = "''Hallo''" and u = None]
          b ok by blast
  then obtain obj where
    cr: "Translation_get_or_create hello_catalog 1 (Some ''de'') 1 0 ''Hallo'' None
          = Inr (obj, True,
                 hello_catalog\<lparr>Translation_objects := Translation_objects hello_catalog @ [obj]\<rparr>)"
    by blast
  have "obj = \<lparr> tr_id = next_id (map tr_id (Translation_objects hello_catalog)),
                tr_string = ''Hallo'', tr_number = 0, tr_source_entity = 1,
                tr_language = Some ''de'', tr_resource = 1, tr_user = None \<rparr>"
    using Translation_lookup_ignores_text
            [where c = hello_catalog and se = 1 and l = "Some ''de''" and r = 1 and n = 0
               and s = "''Hallo''" and u = None and row = obj
               and c' = "hello_catalog\<lparr>Translation_objects := Translation_objects hello_catalog @ [obj]\<rparr>"]
          cr by blast
  then have obj: "obj = ?de"
    by (simp add: next_id_def example_defs)
  have created: "Translation_get_or_create hello_catalog 1 (Some ''de'') 1 0 ''Hallo'' None
       = Inr (?de, True, ?c')"
    using cr unfolding obj .
  have raised: "Translation_get_or_create bye_twice_catalog 1 (Some ''fr'') 1 0 ''Adieu'' None
       = Inl MultipleObjectsReturned"
    using Translation_lookup_ignores_text
            [where c = bye_twice_catalog and se = 1 and l = "Some ''fr''" and r = 1 and n = 0
               and s = "''Adieu''" and u = None]
          m by blast
  from a found b ok created m raised show ?thesis by (intro conjI)
qed

text \<open>
  An existing row is found although the incoming text is not the stored one, and no row
  is created.
\<close>

theorem existing_row_found_with_different_text:
  "Translation_get_or_create hello_catalog 1 (Some ''fr'') 1 0 ''Salut'' None
     = Inr (fr_Translation 1 1 ''Bonjour'', False, hello_catalog)
   \<and> tr_string (fr_Translation 1 1 ''Bonjour'') \<noteq> ''Salut''"
  by (simp add: Translation_get_or_create_def Translation_lookup_def example_defs)

section \<open>Merging twice\<close>

text \<open>
  Claim C4: after \<open>merge_stringset\<close> has run once with
  \<open>overwrite_translations=False\<close>, a second run with the same arguments on the
  resulting catalog adds nothing (it returns \<open>(0, 0)\<close>) and leaves every row of both
  tables as it was.
\<close>

theorem merge_stringset_idempotent:
  "merge_stringset (fst (merge_stringset c self (Some S) tlang usr False)) self (Some S) tlang usr False
     = (fst (merge_stringset c self (Some S) tlang usr False), (0, 0))"
proof (cases "merge_loop self tlang usr False (strings S) (c, 0, 0)")
  case (Inl e)
  then show ?thesis by (simp add: merge_stringset_def merge_body_def)
next
  case (Inr st)
  obtain c' a' up' where st: "st = (c', a', up')" by (cases st) auto
  from merge_loop_resolves[OF Inr[unfolded st]]
  have "merge_loop self tlang usr False (strings S) (c', 0, 0) = Inr (c', 0, 0)"
    by (rule merge_loop_resolved_unchanged)
  with Inr st show ?thesis by (simp add: merge_stringset_def merge_body_def)
qed

text \<open>
A run of it: the first merge creates the two rows, the second changes nothing.
\<close>

theorem merge_stringset_idempotent_witness:
  "merge_stringset empty_catalog 1 (Some \<lparr>strings = [hello_bonjour], target_language = None\<rparr>)
      (Some ''fr'') None False = (hello_catalog, (1, 0))
   \<and> merge_stringset hello_catalog 1 (Some \<lparr>strings = [hello_bonjour], target_language = None\<rparr>)
      (Some ''fr'') None False = (hello_catalog, (0, 0))"
proof -
  have r: "merge_stringset empty_catalog 1
             (Some \<lparr>strings = [hello_bonjour], target_language = None\<rparr>)
             (Some ''fr'') None False = (hello_catalog, (1, 0))"
    by (simp add: merge_defs example_defs)
  from merge_stringset_idempotent
         [of empty_catalog 1 "\<lparr>strings = [hello_bonjour], target_language = None\<rparr>"
             "Some ''fr''" None]
       r
  show ?thesis by simp
qed

section \<open>Cleaning up after the extraction\<close>

text \<open>
  Claim C5, as the code has it: \<open>set_stats\<close> calls the cleanup as its last statement,
  with no \<open>try\<close>/\<open>finally\<close> around the calls before it. When the extraction returns,
  reporting success or failure, and no other call raises, the cleanup is the last call
  made. When the extraction or any other call before the cleanup raises, that call is the
  last one made, its exception leaves \<open>set_stats\<close>, and the cleanup is not called.
\<close>

theorem set_stats_cleans_when_no_call_raises:
  "(delete_stats_for_object env = None \<and> intltool_update env = Inr isIntltooled
      \<and> set_source_stats env isIntltooled = None \<and> get_langs env = Inr langs
      \<and> list_all (\<lambda>lang. set_stats_for_lang env lang = None) langs
      \<longrightarrow> set_stats env =
            ([DeleteStatsForObject, IntltoolUpdate, SetSourceStats isIntltooled, GetLangs]
               @ map SetStatsForLang langs @ [CleanDir],
             clean_dir env))
   \<and> (delete_stats_for_object env = Some e
      \<longrightarrow> set_stats env = ([DeleteStatsForObject], Some e))
   \<and> (delete_stats_for_object env = None \<and> intltool_update env = Inl e
      \<longrightarrow> set_stats env = ([DeleteStatsForObject, IntltoolUpdate], Some e))
   \<and> (delete_stats_for_object env = None \<and> intltool_update env = Inr isIntltooled
      \<and> set_source_stats env isIntltooled = Some e
      \<longrightarrow> set_stats env =
            ([DeleteStatsForObject, IntltoolUpdate, SetSourceStats isIntltooled], Some e))
   \<and> (delete_stats_for_object env = None \<and> intltool_update env = Inr isIntltooled
      \<and> set_source_stats env isIntltooled = None \<and> get_langs env = Inl e
      \<longrightarrow> set_stats env =
            ([DeleteStatsForObject, IntltoolUpdate, SetSourceStats isIntltooled, GetLangs],
             Some e))
   \<and> (delete_stats_for_object env = None \<and> intltool_update env = Inr isIntltooled
      \<and> set_source_stats env isIntltooled = None \<and> get_langs env = Inr (before @ lang # rest)
      \<and> list_all (\<lambda>lang. set_stats_for_lang env lang = None) before
      \<and> set_stats_for_lang env lang = Some e
      \<longrightarrow> set_stats env =
            ([DeleteStatsForObject, IntltoolUpdate, SetSourceStats isIntltooled, GetLangs]
               @ map SetStatsForLang before @ [SetStatsForLang lang],
             Some e))
   \<and> (CleanDir \<in> set (fst (set_stats env))) =
       (delete_stats_for_object env = None
        \<and> (\<exists>b ls. intltool_update env = Inr b \<and> set_source_stats env b = None
               \<and> get_langs env = Inr ls
               \<and> list_all (\<lambda>lang. set_stats_for_lang env lang = None) ls))"
proof (intro conjI impI)
  assume "delete_stats_for_object env = None \<and> intltool_update env = Inr isIntltooled
      \<and> set_source_stats env isIntltooled = None \<and> get_langs env = Inr langs
      \<and> list_all (\<lambda>lang. set_stats_for_lang env lang = None) langs"
  then show "set_stats env =
            ([DeleteStatsForObject, IntltoolUpdate, SetSourceStats isIntltooled, GetLangs]
               @ map SetStatsForLang langs @ [CleanDir],
             clean_dir env)"
    by (cases isIntltooled) (simp_all add: set_stats_def stats_loop_no_error)
next
  assume "delete_stats_for_object env = Some e"
  then show "set_stats env = ([DeleteStatsForObject], Some e)"
    by (simp add: set_stats_def)
next
  assume "delete_stats_for_object env = None \<and> intltool_update env = Inl e"
  then show "set_stats env = ([DeleteStatsForObject, IntltoolUpdate], Some e)"
    by (simp add: set_stats_def)
next
  assume "delete_stats_for_object env = None \<and> intltool_update env = Inr isIntltooled
      \<and> set_source_stats env isIntltooled = Some e"
  then show "set_stats env =
            ([DeleteStatsForObject, IntltoolUpdate, SetSourceStats isIntltooled], Some e)"
    by (cases isIntltooled) (simp_all add: set_stats_def)
next
  assume "delete_stats_for_object env = None \<and> intltool_update env = Inr isIntltooled
      \<and> set_source_stats env isIntltooled = None \<and> get_langs env = Inl e"
  then show "set_stats env =
            ([DeleteStatsForObject, IntltoolUpdate, SetSourceStats isIntltooled, GetLangs],
             Some e)"
    by (cases isIntltooled) (simp_all add: set_stats_def)
next
  assume "delete_stats_for_object env = None \<and> intltool_update env = Inr isIntltooled
      \<and> set_source_stats env isIntltooled = None \<and> get_langs env = Inr (before @ lang # rest)
      \<and> list_all (\<lambda>lang. set_stats_for_lang env lang = None) before
      \<and> set_stats_for_lang env lang = Some e"
  then show "set_stats env =
            ([DeleteStatsForObject, IntltoolUpdate, SetSourceStats isIntltooled, GetLangs]
               @ map SetStatsForLang before @ [SetStatsForLang lang],
             Some e)"
    by (cases isIntltooled) (simp_all add: set_stats_def stats_loop_error)
next
  show "(CleanDir \<in> set (fst (set_stats env))) =
       (delete_stats_for_object env = None
        \<and> (\<exists>b ls. intltool_update env = Inr b \<and> set_source_stats env b = None
               \<and> get_langs env = Inr ls
               \<and> list_all (\<lambda>lang. set_stats_for_lang env lang = None) ls))"
    by (rule set_stats_CleanDir_iff)
qed

text \<open>
  Each case on concrete collaborators: the two outcomes the extraction can report, and an
  exception from each of the five calls before the cleanup.
\<close>

theorem set_stats_cleans_when_no_call_raises_witness:
  "set_stats (quiet_collaborators (Inr True)) =
     ([DeleteStatsForObject, IntltoolUpdate, SetSourceStats True, GetLangs,
       SetStatsForLang ''fr'', SetStatsForLang ''de'', CleanDir], None)
   \<and> set_stats (quiet_collaborators (Inr False)) =
     ([DeleteStatsForObject, IntltoolUpdate, SetSourceStats False, GetLangs,
       SetStatsForLang ''fr'', SetStatsForLang ''de'', CleanDir], None)
   \<and> set_stats (quiet_collaborators (Inr True)
                  \<lparr>delete_stats_for_object := Some (Raised ''DatabaseError'')\<rparr>) =
     ([DeleteStatsForObject], Some (Raised ''DatabaseError''))
   \<and> set_stats (quiet_collaborators (Inl (Raised ''OSError''))) =
     ([DeleteStatsForObject, IntltoolUpdate], Some (Raised ''OSError''))
   \<and> set_stats (quiet_collaborators (Inr False)
                  \<lparr>set_source_stats := (\<lambda>b. Some (Raised ''IOError''))\<rparr>) =
     ([DeleteStatsForObject, IntltoolUpdate, SetSourceStats False], Some (Raised ''IOError''))
   \<and> set_stats (quiet_collaborators (Inr True)\<lparr>get_langs := Inl (Raised ''OSError'')\<rparr>) =
     ([DeleteStatsForObject, IntltoolUpdate, SetSourceStats True, GetLangs],
      Some (Raised ''OSError''))
   \<and> set_stats (quiet_collaborators (Inr True)
                  \<lparr>set_stats_for_lang :=
                     (\<lambda>lang. if lang = ''de'' then Some (Raised ''IOError'') else None)\<rparr>) =
     ([DeleteStatsForObject, IntltoolUpdate, SetSourceStats True, GetLangs,
       SetStatsForLang ''fr'', SetStatsForLang ''de''], Some (Raised ''IOError''))
   \<and> CleanDir \<in> set (fst (set_stats (quiet_collaborators (Inr False))))
   \<and> CleanDir \<notin> set (fst (set_stats (quiet_collaborators (Inl (Raised ''OSError'')))))"
proof -
  let ?del = "quiet_collaborators (Inr True)
                \<lparr>delete_stats_for_object := Some (Raised ''DatabaseError'')\<rparr>"
  let ?src = "quiet_collaborators (Inr False)
                \<lparr>set_source_stats := (\<lambda>b. Some (Raised ''IOError''))\<rparr>"
  let ?get = "quiet_collaborators (Inr True)\<lparr>get_langs := Inl (Raised ''OSError'')\<rparr>"
  let ?lang = "quiet_collaborators (Inr True)
                \<lparr>set_stats_for_lang :=
                   (\<lambda>lang. if lang = ''de'' then Some (Raised ''IOError'') else None)\<rparr>"
  have ok: "set_stats (quiet_collaborators (Inr b)) =
     ([DeleteStatsForObject, IntltoolUpdate, SetSourceStats b, GetLangs,
       SetStatsForLang ''fr'', SetStatsForLang ''de'', CleanDir], None)" for b
    using set_stats_cleans_when_no_call_raises
            [where env = "quiet_collaborators (Inr b)" and isIntltooled = b
               and langs = "[''fr'', ''de'']"]
    by (simp add: quiet_collaborators_def)
  have del: "set_stats ?del = ([DeleteStatsForObject], Some (Raised ''DatabaseError''))"
    using set_stats_cleans_when_no_call_raises
            [where env = ?del and e = "Raised ''DatabaseError''"]
    by (simp add: quiet_collaborators_def)
  have ext: "set_stats (quiet_collaborators (Inl (Raised ''OSError''))) =
     ([DeleteStatsForObject, IntltoolUpdate], Some (Raised ''OSError''))"
    using set_stats_cleans_when_no_call_raises
            [where env = "quiet_collaborators (Inl (Raised ''OSError''))"
               and e = "Raised ''OSError''"]
    by (simp add: quiet_collaborators_def)
  have src: "set_stats ?src =
     ([DeleteStatsForObject, IntltoolUpdate, SetSourceStats False], Some (Raised ''IOError''))"
    using set_stats_cleans_when_no_call_raises
            [where env = ?src and isIntltooled = False and e = "Raised ''IOError''"]
    by (simp add: quiet_collaborators_def)
  have get: "set_stats ?get =
     ([DeleteStatsForObject, IntltoolUpdate, SetSourceStats True, GetLangs],
      Some (Raised ''OSError''))"
    using set_stats_cleans_when_no_call_raises
            [where env = ?get and isIntltooled = True and e = "Raised ''OSError''"]
    by (simp add: quiet_collaborators_def)
  have lang: "set_stats ?lang =
     ([DeleteStatsForObject, IntltoolUpdate, SetSourceStats True, GetLangs,
       SetStatsForLang ''fr'', SetStatsForLang ''de''], Some (Raised ''IOError''))"
    using set_stats_cleans_when_no_call_raises
            [where env = ?lang and isIntltooled = True and e = "Raised ''IOError''"
               and before = "[''fr'']" and lang = "''de''" and rest = "[]"]
    by (simp add: quiet_collaborators_def)
  from ok[of True] ok[of False] del ext src get lang show ?thesis
    by simp
qed

text \<open>
  When the extraction raises, the exception leaves \<open>set_stats\<close> and the cleanup is not
  called.
\<close>

theorem extraction_error_skips_cleanup:
  "set_stats (quiet_collaborators (Inl (Raised ''OSError''))) =
     ([DeleteStatsForObject, IntltoolUpdate], Some (Raised ''OSError''))
   \<and> CleanDir \<notin> set (fst (set_stats (quiet_collaborators (Inl (Raised ''OSError'')))))"
  by (simp add: set_stats_def quiet_collaborators_def)

section \<open>Merging one entry into an empty resource\<close>

text \<open>
  Claim C6: merging the single entry (source "Hello", empty context, number 0, translation
  "Bonjour") with target language fr into a resource that has no source entity and no
  translation returns \<open>(1, 0)\<close>; afterwards the resource has exactly one source entity,
  whose context is the string "None", and exactly one translation, "Bonjour" in fr, of
  that entity.
\<close>

theorem merge_hello_into_empty_resource:
  assumes "filter (\<lambda>e. se_resource e = self) (SourceEntity_objects c) = []"
    and "filter (\<lambda>t. tr_resource t = self) (Translation_objects c) = []"
  shows "snd (merge_stringset c self (Some \<lparr>strings = [hello_bonjour], target_language = tg\<rparr>)
                (Some ''fr'') usr ow) = (1, 0)
       \<and> filter (\<lambda>e. se_resource e = self)
           (SourceEntity_objects
              (fst (merge_stringset c self (Some \<lparr>strings = [hello_bonjour], target_language = tg\<rparr>)
                      (Some ''fr'') usr ow)))
         = [\<lparr> se_id = next_id (map se_id (SourceEntity_objects c)), se_string = ''Hello'',
               se_context = ''None'', se_position = Some 1, se_occurrences = None,
               se_flags = [], se_developer_comment = [], se_number = 0, se_resource = self,
               se_singular = None \<rparr>]
       \<and> filter (\<lambda>t. tr_resource t = self)
           (Translation_objects
              (fst (merge_stringset c self (Some \<lparr>strings = [hello_bonjour], target_language = tg\<rparr>)
                      (Some ''fr'') usr ow)))
         = [\<lparr> tr_id = next_id (map tr_id (Translation_objects c)), tr_string = ''Bonjour'',
               tr_number = 0, tr_source_entity = next_id (map se_id (SourceEntity_objects c)),
               tr_language = Some ''fr'', tr_resource = self, tr_user = usr \<rparr>]"
proof -
  have se: "SourceEntity_lookup c ''Hello'' ''None'' self 0 = []"
    using assms(1) by (rule SourceEntity_lookup_empty_resource)
  have tr: "Translation_lookup c' se' (Some ''fr'') self 0 = []"
    if "Translation_objects c' = Translation_objects c" for c' se'
    using assms(2) that Translation_lookup_empty_resource[of self c'] by simp
  have step: "merge_step self (Some ''fr'') usr ow hello_bonjour (c, 0, 0)
      = Inr (c\<lparr>SourceEntity_objects := SourceEntity_objects c @
                 [\<lparr> se_id = next_id (map se_id (SourceEntity_objects c)), se_string = ''Hello'',
               se_context = ''None'', se_position = Some 1, se_occurrences = None,
               se_flags = [], se_developer_comment = [], se_number = 0, se_resource = self,
               se_singular = None \<rparr>],
               Translation_objects := Translation_objects c @
                 [\<lparr> tr_id = next_id (map tr_id (Translation_objects c)), tr_string = ''Bonjour'',
               tr_number = 0, tr_source_entity = next_id (map se_id (SourceEntity_objects c)),
               tr_language = Some ''fr'', tr_resource = self, tr_user = usr \<rparr>]\<rparr>, 1, 0)"
    by (simp add: merge_step_def SourceEntity_get_or_create_def Translation_get_or_create_def
          context_or_None_def hello_bonjour_def CharField_ok_def IntegerField_ok_def se tr Let_def)
  show ?thesis
    using assms by (simp add: merge_stringset_def merge_body_def step)
qed

text \<open>
On the empty catalog the result is the catalog \<open>hello_catalog\<close>.
\<close>

theorem merge_hello_into_empty_resource_witness:
  "filter (\<lambda>e. se_resource e = 1) (SourceEntity_objects empty_catalog) = []
   \<and> filter (\<lambda>t. tr_resource t = 1) (Translation_objects empty_catalog) = []
   \<and> merge_stringset empty_catalog 1 (Some \<lparr>strings = [hello_bonjour], target_language = Some ''fr''\<rparr>)
        (Some ''fr'') None True = (hello_catalog, (1, 0))"
proof -
  have a: "filter (\<lambda>e. se_resource e = 1) (SourceEntity_objects empty_catalog) = []"
    by (simp add: empty_catalog_def)
  have b: "filter (\<lambda>t. tr_resource t = 1) (Translation_objects empty_catalog) = []"
    by (simp add: empty_catalog_def)
  have r: "merge_stringset empty_catalog 1 (Some \<lparr>strings = [hello_bonjour], target_language = Some ''fr''\<rparr>)
        (Some ''fr'') None True = (hello_catalog, (1, 0))"
    by (simp add: merge_defs example_defs)
  from merge_hello_into_empty_resource[OF a b, of "Some ''fr''" None True] a b r
  show ?thesis by simp
qed

section \<open>The counters\<close>

text \<open>
  Claim C7: the two counters returned by \<open>merge_stringset\<close> add up to at most the number
  of entries of the stringset, for every catalog, resource, stringset, target language,
  user and overwrite flag.
\<close>

theorem merge_stringset_counts_bounded:
  "fst (snd (merge_stringset c self (Some S) tlang usr ow))
     + snd (snd (merge_stringset c self (Some S) tlang usr ow)) \<le> length (strings S)"
proof (cases "merge_body c self (Some S) tlang usr ow")
  case (Inl e)
  then show ?thesis by (simp add: merge_stringset_def)
next
  case (Inr st)
  obtain c' a' up' where st: "st = (c', a', up')" by (cases st) auto
  with Inr have "merge_loop self tlang usr ow (strings S) (c, 0, 0) = Inr (c', a', up')"
    by (simp add: merge_body_def)
  from merge_loop_counts[OF this] Inr st show ?thesis
    by (simp add: merge_stringset_def)
qed

text \<open>
A run of it: of two entries one is new and one exists.
\<close>

theorem merge_stringset_counts_bounded_witness:
  "snd (merge_stringset hello_catalog 1
          (Some \<lparr>strings = [hello_salut, bye_adieu], target_language = None\<rparr>)
          (Some ''fr'') None False) = (1, 0)
   \<and> (1::nat) + 0 \<le> length [hello_salut, bye_adieu]"
proof -
  have r: "snd (merge_stringset hello_catalog 1
                  (Some \<lparr>strings = [hello_salut, bye_adieu], target_language = None\<rparr>)
                  (Some ''fr'') None False) = (1, 0)"
    by (simp add: merge_defs example_defs)
  from merge_stringset_counts_bounded
         [of hello_catalog 1 "\<lparr>strings = [hello_salut, bye_adieu], target_language = None\<rparr>"
             "Some ''fr''" None False]
       r
  show ?thesis by simp
qed

section \<open>Merging from a file\<close>

text \<open>
  Claim C8: \<open>merge_translation_file\<close> on a file whose format is not recognised (no parser
  is registered for its MIME type) or that its parser cannot parse (\<open>parse_file\<close>
  raises) changes no row and raises: \<open>KeyError\<close> in the first case, the parser's
  exception in the second. It returns a pair of counts only for a file that was parsed,
  and the pair is then the result of merging the parsed stringset, so a failure is never
  reported as an empty merge.
\<close>

theorem merge_translation_file_parser_failure:
  "(PARSER_MAPPING (sf_mime_type f) = None
      \<longrightarrow> merge_translation_file PARSER_MAPPING c self f = (c, Inl KeyError))
   \<and> (PARSER_MAPPING (sf_mime_type f) = Some p \<and> p (get_storage_path f) = Inl e
      \<longrightarrow> merge_translation_file PARSER_MAPPING c self f = (c, Inl e))
   \<and> (merge_translation_file PARSER_MAPPING c self f = (c', Inr counts)
      \<longrightarrow> (\<exists>q ss. PARSER_MAPPING (sf_mime_type f) = Some q \<and> q (get_storage_path f) = Inr ss
                 \<and> merge_stringset c self (Some ss) (sf_language f) None True = (c', counts)))"
  by (auto simp: merge_translation_file_def split: option.splits sum.splits prod.splits)

text \<open>
  The three cases on a PO file: no parser, a parser that raises, and a parser that
  returns the entry "Hello"/"Bonjour", merged into the empty catalog.
\<close>

theorem merge_translation_file_parser_failure_witness:
  "merge_translation_file Map.empty hello_catalog 1 po_file = (hello_catalog, Inl KeyError)
   \<and> merge_translation_file [''text/x-po'' \<mapsto> (\<lambda>path. Inl (Raised ''SyntaxError''))]
        hello_catalog 1 po_file = (hello_catalog, Inl (Raised ''SyntaxError''))
   \<and> merge_translation_file [''text/x-po'' \<mapsto> hello_parser] empty_catalog 1 po_file
       = (hello_catalog, Inr (1, 0))
   \<and> (\<exists>q ss. [''text/x-po'' \<mapsto> hello_parser] (sf_mime_type po_file) = Some q
            \<and> q (get_storage_path po_file) = Inr ss
            \<and> merge_stringset empty_catalog 1 (Some ss) (sf_language po_file) None True
                = (hello_catalog, (1, 0)))"
proof -
  have m: "sf_mime_type po_file = ''text/x-po''" by (simp add: po_file_def)
  have none: "merge_translation_file Map.empty hello_catalog 1 po_file
                = (hello_catalog, Inl KeyError)"
    using merge_translation_file_parser_failure
            [where PARSER_MAPPING = Map.empty and f = po_file and c = hello_catalog and self = 1]
    by simp
  have raised: "merge_translation_file [''text/x-po'' \<mapsto> (\<lambda>path. Inl (Raised ''SyntaxError''))]
        hello_catalog 1 po_file = (hello_catalog, Inl (Raised ''SyntaxError''))"
    using merge_translation_file_parser_failure
            [where PARSER_MAPPING = "[''text/x-po'' \<mapsto> (\<lambda>path. Inl (Raised ''SyntaxError''))]"
               and f = po_file and c = hello_catalog and self = 1
               and p = "\<lambda>path. Inl (Raised ''SyntaxError'')" and e = "Raised ''SyntaxError''"]
          m
    by simp
  have parsed: "merge_translation_file [''text/x-po'' \<mapsto> hello_parser] empty_catalog 1 po_file
                  = (hello_catalog, Inr (1, 0))"
    by (simp add: merge_translation_file_def hello_parser_def merge_defs example_defs po_file_def)
  have "\<exists>q ss. [''text/x-po'' \<mapsto> hello_parser] (sf_mime_type po_file) = Some q
            \<and> q (get_storage_path po_file) = Inr ss
            \<and> merge_stringset empty_catalog 1 (Some ss) (sf_language po_file) None True
                = (hello_catalog, (1, 0))"
    using merge_translation_file_parser_failure
            [where PARSER_MAPPING = "[''text/x-po'' \<mapsto> hello_parser]" and f = po_file
               and c = empty_catalog and self = 1 and c' = hello_catalog and counts = "(1, 0)"
               and p = hello_parser and e = KeyError,
             THEN conjunct2, THEN conjunct2, THEN mp, OF parsed] .
  with none raised parsed show ?thesis by (intro conjI)
qed

section \<open>Percentages\<close>

text \<open>
  Claim C9: \<open>trans_percent\<close> returns the floor of translated count times 100 over the
  number of source entities of the resource, and 100 when the resource has no source
  entity.
\<close>

theorem trans_percent_floor:
  assumes "num_translated Language_objects c self code = Inr t"
  shows "trans_percent Language_objects c self code =
           Inr (if total_entities c self = 0 then 100
                else \<lfloor>real t * 100 / real (total_entities c self)\<rfloor>)"
proof -
  have "\<lfloor>real t * 100 / real n\<rfloor> = int t * 100 div int n" for n
  proof -
    have "real t * 100 / real n = of_int (int t * 100) / of_int (int n)" by simp
    then show ?thesis by (simp only: floor_divide_of_int_eq)
  qed
  with assms show ?thesis
    by (simp add: trans_percent_def py_div_def)
qed

text \<open>
One entity of three translated gives 33; an empty resource gives 100.
\<close>

theorem trans_percent_floor_witness:
  "num_translated languages_fr three_catalog 1 ''fr'' = Inr 1
   \<and> trans_percent languages_fr three_catalog 1 ''fr'' = Inr 33
   \<and> num_translated languages_fr empty_catalog 1 ''fr'' = Inr 0
   \<and> trans_percent languages_fr empty_catalog 1 ''fr'' = Inr 100"
proof -
  have a: "num_translated languages_fr three_catalog 1 ''fr'' = Inr 1"
    by (simp add: stats_defs example_defs three_catalog_def languages_fr_def)
  have b: "num_translated languages_fr empty_catalog 1 ''fr'' = Inr 0"
    by (simp add: stats_defs example_defs languages_fr_def)
  have n3: "total_entities three_catalog 1 = 3"
    by (simp add: total_entities_def example_defs three_catalog_def)
  have n0: "total_entities empty_catalog 1 = 0"
    by (simp add: total_entities_def example_defs)
  from trans_percent_floor[OF a] trans_percent_floor[OF b] a b n3 n0
  show ?thesis by simp
qed

text \<open>
  Claim C10: \<open>untrans_percent\<close> returns 100 minus \<open>trans_percent\<close>, so the two
  percentages add up to 100; it is not a floored division of its own.
\<close>

theorem untrans_percent_complement:
  assumes "by_code_or_alias Language_objects code = Inr l"
  shows "\<exists>p u. trans_percent Language_objects c self code = Inr p
             \<and> untrans_percent Language_objects c self code = Inr u
             \<and> u = 100 - p \<and> p + u = 100"
  using assms
  by (simp add: untrans_percent_def trans_percent_def num_translated_def translated_strings_def
        py_div_def)

text \<open>
  One entity of three translated: 33 and 67, where flooring the untranslated share
  (two of three) by itself would give 66.
\<close>

theorem untrans_percent_complement_witness:
  "by_code_or_alias languages_fr ''fr'' = Inr ''fr''
   \<and> trans_percent languages_fr three_catalog 1 ''fr'' = Inr 33
   \<and> untrans_percent languages_fr three_catalog 1 ''fr'' = Inr 67"
proof -
  have a: "by_code_or_alias languages_fr ''fr'' = Inr ''fr''"
    by (simp add: by_code_or_alias_def languages_fr_def)
  have p: "trans_percent languages_fr three_catalog 1 ''fr'' = Inr 33"
    by (simp add: stats_defs example_defs three_catalog_def languages_fr_def)
  from untrans_percent_complement[OF a, of three_catalog 1] a p show ?thesis
    by auto
qed

end
